theory Spec2Isabelle
  imports Main "HOL-Library.Word"
begin

unbundle bit_operations_syntax

section \<open>Data model\<close>

text \<open>
  \<open>long long\<close> is a 64-bit word, read as two's complement with \<open>sint\<close> and compared
  with \<open><s\<close>. A \<open>double\<close> is kept by its IEEE-754 binary64 bit pattern; no arithmetic
  is done on it here. \<open>Clock\<close> and \<open>TimePoint\<close> are declared outside \<open>src/\<close>: a time
  point is represented by the count that
  \<open>round<milliseconds>(t.time_since_epoch()).count()\<close> yields for it.
\<close>

type_synonym long_long = "64 word"
type_synonym double = "64 word"
type_synonym time_point = "64 word"

definition long_long_max :: long_long where
  "long_long_max = 0x7FFFFFFFFFFFFFFF"

text \<open>The literal \<open>-1.0\<close> (sign 1, biased exponent 1023, fraction 0).\<close>

definition minus_one_double :: double where
  "minus_one_double = 0xBFF0000000000000"

text \<open>\<open>VariableValue\<close>: the closed variant that crosses the variable bridge.\<close>

datatype variable_value = VInteger long_long | VFloating double | VText string

subsection \<open>The script environment\<close>

text \<open>\<open>sol::type\<close>, as far as values of a script can have it.\<close>

datatype lua_type =
  type_nil | type_boolean | type_number | type_string | type_table
  | type_function | type_userdata | type_lightuserdata | type_thread

text \<open>
  Values of the VM. A number is held either as an integer or as a float (the two
  subtypes of the VM's number type); tables are kept by their string-keyed members,
  functions and the opaque kinds by a name or an identity.
\<close>

datatype lua_value =
  LuaNil
  | LuaBoolean bool
  | LuaInteger long_long
  | LuaFloat double
  | LuaString string
  | LuaTable "(string \<times> lua_value) list"
  | LuaFunction string
  | LuaUserdata nat
  | LuaLightUserdata nat
  | LuaThread nat

fun get_type :: "lua_value \<Rightarrow> lua_type" where
  "get_type LuaNil = type_nil"
| "get_type (LuaBoolean _) = type_boolean"
| "get_type (LuaInteger _) = type_number"
| "get_type (LuaFloat _) = type_number"
| "get_type (LuaString _) = type_string"
| "get_type (LuaTable _) = type_table"
| "get_type (LuaFunction _) = type_function"
| "get_type (LuaUserdata _) = type_userdata"
| "get_type (LuaLightUserdata _) = type_lightuserdata"
| "get_type (LuaThread _) = type_thread"

text \<open>\<open>sol::lib\<close>: the libraries \<open>open_libraries\<close> can be asked for.\<close>

datatype lib =
  lib_base | lib_package | lib_coroutine | lib_string | lib_os | lib_math | lib_table
  | lib_debug | lib_bit32 | lib_io | lib_ffi | lib_jit | lib_utf8

datatype hook_function =
  Hook_check_timeout_and_termination_request | Hook_abort_with_error

datatype hook_mask = LUA_MASKCOUNT | LUA_MASKLINE

text \<open>
  A \<open>CommChannel*\<close> is an address or \<open>nullptr\<close> (\<open>None\<close>); the channels live in a
  store, since the termination flag is set from outside while the pointer sits in
  the registry.
\<close>

type_synonym comm_ptr = "nat option"

text \<open>
  What the registry holds under \<open>TASKOMAT_COMM_CHANNEL\<close>: nothing (the key is absent,
  its value is nil), a channel by its address, or a value that is not a channel.
\<close>

datatype channel_entry = Entry_absent | Entry_channel nat | Entry_foreign

text \<open>
  The binding library (sol2, outside \<open>src/\<close>) has no stored form of a null class
  pointer: the assignment \<open>registry[comm_channel_key] = comm_channel\<close> with a null
  pointer stores nil, which leaves the key absent.
\<close>

fun push_comm_channel :: "comm_ptr \<Rightarrow> channel_entry" where
  "push_comm_channel None = Entry_absent"
| "push_comm_channel (Some p) = Entry_channel p"

text \<open>
  The read \<open>sol::optional<CommChannel*> opt = registry[comm_channel_key]\<close>: nil is
  accepted for a pointer and read as \<open>nullptr\<close>, so an absent entry gives an optional
  that has a value, the null pointer; only an entry that is not a channel gives an
  optional without a value.
\<close>

fun read_comm_channel :: "channel_entry \<Rightarrow> comm_ptr option" where
  "read_comm_channel Entry_absent = Some None"
| "read_comm_channel (Entry_channel p) = Some (Some p)"
| "read_comm_channel Entry_foreign = None"

text \<open>
  The four registry entries of \<open>Step.cc\<close>:
  \<open>TASKOMAT_STEP_TIMEOUT_MS_SINCE_EPOCH\<close>, \<open>TASKOMAT_STEP_TIMEOUT_S\<close>,
  \<open>TASKOMAT_COMM_CHANNEL\<close> and \<open>TASKOMAT_ABORT_ERROR_MESSAGE\<close>. The number and
  string fields are what a \<open>sol::optional\<close> read of the key yields: \<open>None\<close> when the
  entry is absent, \<open>Some x\<close> when it holds \<open>x\<close>.
\<close>

record registry =
  step_timeout_ms_since_epoch :: "long_long option"
  step_timeout_s :: "double option"
  comm_channel :: channel_entry
  abort_error_message :: "string option"

record lua_state =
  libraries :: "lib list"
  globals :: "string \<Rightarrow> lua_value"
  registry :: registry
  hook :: "(hook_function \<times> hook_mask \<times> nat) option"

text \<open>\<open>sol::state lua;\<close> a fresh VM: no library, no global, empty registry, no hook.\<close>

definition new_state :: lua_state where
  "new_state =
     \<lparr>libraries = [], globals = (\<lambda>_. LuaNil),
      registry = \<lparr>step_timeout_ms_since_epoch = None, step_timeout_s = None,
                  comm_channel = Entry_absent, abort_error_message = None\<rparr>,
      hook = None\<rparr>"

subsection \<open>Messages and the channel\<close>

datatype message_type = step_started | step_stopped | step_stopped_with_error

record message =
  msg_type :: message_type
  msg_text :: string
  msg_timestamp :: time_point
  msg_index :: nat

record comm_channel_obj =
  immediate_termination_requested :: bool
  queue :: "message list"

type_synonym store = "nat \<Rightarrow> comm_channel_obj"

subsection \<open>Context and Step\<close>

text \<open>
  The context: the variables by name, and the caller's initialiser of the VM, which
  is taken to return normally. The step carries what \<open>execute\<close> reads and writes:
  the script, the whitelist of variable names in the order the loops visit them, the
  timeout in milliseconds and the time of the last execution. A step index
  (\<open>Message::IndexType\<close>, declared outside \<open>src/\<close>) is taken as a natural number.
\<close>

record Context =
  variables :: "string \<rightharpoonup> variable_value"
  lua_init_function :: "(lua_state \<Rightarrow> lua_state) option"

record step =
  script :: string
  used_context_variable_names :: "string list"
  timeout :: long_long
  time_of_last_execution :: time_point

datatype error = Error string

section \<open>Text helpers\<close>

text \<open>\<open>gul14::cat\<close> on an unsigned integer: its decimal digits.\<close>

fun string_of_nat :: "nat \<Rightarrow> string" where
  "string_of_nat n =
     (if n < 10 then [''0123456789'' ! n]
      else string_of_nat (n div 10) @ [''0123456789'' ! (n mod 10)])"

declare string_of_nat.simps [simp del]

definition step_timeout_ms_since_epoch_key :: string where
  "step_timeout_ms_since_epoch_key = ''TASKOMAT_STEP_TIMEOUT_MS_SINCE_EPOCH''"

definition comm_channel_key :: string where
  "comm_channel_key = ''TASKOMAT_COMM_CHANNEL''"

section \<open>The execution hooks\<close>

text \<open>
  What a hook call does to the VM: it returns, leaving a state, or it raises a VM
  error (\<open>luaL_error\<close>) with a message, or the read of the abort message fails
  because the entry is not a string.
\<close>

datatype hook_result =
  Returns lua_state
  | Raises string lua_state
  | Bad_abort_message lua_state

text \<open>
  \<open>hook_abort_with_error\<close>: reads the message from the registry, re-installs itself
  as a line hook and raises the message (the text handed to \<open>luaL_error\<close>).
\<close>

definition hook_abort_with_error :: "lua_state \<Rightarrow> hook_result" where
  "hook_abort_with_error L =
     (case abort_error_message (registry L) of
        None \<Rightarrow> Bad_abort_message L
      | Some err_msg \<Rightarrow>
          Raises err_msg (L\<lparr>hook := Some (Hook_abort_with_error, LUA_MASKLINE, 0)\<rparr>))"

definition abort_script_with_error :: "lua_state \<Rightarrow> string \<Rightarrow> hook_result" where
  "abort_script_with_error L msg =
     hook_abort_with_error
       (L\<lparr>registry := (registry L)\<lparr>abort_error_message := Some (''[ABORT] '' @ msg)\<rparr>\<rparr>)"

definition check_immediate_termination_request :: "store \<Rightarrow> lua_state \<Rightarrow> hook_result" where
  "check_immediate_termination_request st L =
     (case read_comm_channel (comm_channel (registry L)) of
        None \<Rightarrow> abort_script_with_error L (comm_channel_key @ '' not found in LUA registry'')
      | Some comm \<Rightarrow>
          (case comm of
             None \<Rightarrow> Returns L
           | Some p \<Rightarrow>
               if immediate_termination_requested (st p)
               then abort_script_with_error L ''Step aborted on user request''
               else Returns L))"

text \<open>
  \<open>check_script_timeout\<close>; \<open>cat_double\<close> is \<open>gul14::cat\<close> on a double and \<open>now_ms\<close>
  the clock reading of the call, both from outside \<open>src/\<close>.
\<close>

definition check_script_timeout ::
  "(double \<Rightarrow> string) \<Rightarrow> long_long \<Rightarrow> lua_state \<Rightarrow> hook_result" where
  "check_script_timeout cat_double now_ms L =
     (case step_timeout_ms_since_epoch (registry L) of
        None \<Rightarrow>
          abort_script_with_error L
            (''Timeout time point not found in LUA registry (''
             @ step_timeout_ms_since_epoch_key @ '')'')
      | Some timeout_ms \<Rightarrow>
          if timeout_ms <s now_ms
          then
            (let seconds = (case step_timeout_s (registry L) of
                              Some s \<Rightarrow> s | None \<Rightarrow> minus_one_double)
             in abort_script_with_error L
                  (''Timeout: Script took more than '' @ cat_double seconds
                   @ '' s to run''))
          else Returns L)"

definition hook_check_timeout_and_termination_request ::
  "(double \<Rightarrow> string) \<Rightarrow> store \<Rightarrow> long_long \<Rightarrow> lua_state \<Rightarrow> hook_result" where
  "hook_check_timeout_and_termination_request cat_double st now_ms L =
     (case check_immediate_termination_request st L of
        Returns L1 \<Rightarrow> check_script_timeout cat_double now_ms L1
      | r \<Rightarrow> r)"

section \<open>Deadline, hook installation and sandbox\<close>

definition get_ms_since_epoch :: "long_long \<Rightarrow> long_long \<Rightarrow> long_long" where
  "get_ms_since_epoch t0_ms dt_ms =
     (let max_dt = long_long_max - t0_ms
      in if dt_ms <s max_dt then t0_ms + dt_ms else long_long_max)"

text \<open>
  \<open>install_timeout_and_termination_request_hook\<close>; \<open>duration_double\<close> is
  \<open>std::chrono::duration<double>(timeout).count()\<close>, the timeout in seconds.
\<close>

definition install_timeout_and_termination_request_hook ::
  "(long_long \<Rightarrow> double) \<Rightarrow> lua_state \<Rightarrow> time_point \<Rightarrow> long_long \<Rightarrow> comm_ptr \<Rightarrow> lua_state" where
  "install_timeout_and_termination_request_hook duration_double L now tmo comm =
     L\<lparr>registry := (registry L)
          \<lparr>step_timeout_s := Some (duration_double tmo),
           step_timeout_ms_since_epoch := Some (get_ms_since_epoch now tmo),
           comm_channel := push_comm_channel comm\<rparr>,
       hook := Some (Hook_check_timeout_and_termination_request, LUA_MASKCOUNT, 100)\<rparr>"

text \<open>\<open>Step::set_timeout\<close>: a negative timeout is stored as zero.\<close>

definition set_timeout :: "step \<Rightarrow> long_long \<Rightarrow> step" where
  "set_timeout s tmo = (if tmo <s 0 then s\<lparr>timeout := 0\<rparr> else s\<lparr>timeout := tmo\<rparr>)"

definition install_custom_commands :: "lua_state \<Rightarrow> lua_state" where
  "install_custom_commands L = L\<lparr>globals := (globals L)(''sleep'' := LuaFunction ''sleep'')\<rparr>"

text \<open>
  Modelled from the spec: \<open>sol::state::open_libraries\<close> is not in \<open>src/\<close>. Opening a
  library records it as open and binds the globals the library defines; which
  globals those are is the VM's business and is taken as the parameter \<open>luaopen\<close>.
\<close>

definition open_library ::
  "(lib \<Rightarrow> (string \<times> lua_value) list) \<Rightarrow> lib \<Rightarrow> lua_state \<Rightarrow> lua_state" where
  "open_library luaopen l L =
     L\<lparr>libraries := libraries L @ [l],
       globals := fold (\<lambda>kv g. g(fst kv := snd kv)) (luaopen l) (globals L)\<rparr>"

definition open_libraries ::
  "(lib \<Rightarrow> (string \<times> lua_value) list) \<Rightarrow> lib list \<Rightarrow> lua_state \<Rightarrow> lua_state" where
  "open_libraries luaopen ls L = fold (open_library luaopen) ls L"

definition removed_globals :: "string list" where
  "removed_globals =
     [''collectgarbage'', ''debug'', ''dofile'', ''load'', ''loadfile'', ''print'',
      ''require'']"

definition open_safe_library_subset ::
  "(lib \<Rightarrow> (string \<times> lua_value) list) \<Rightarrow> lua_state \<Rightarrow> lua_state" where
  "open_safe_library_subset luaopen L =
     (let L1 = open_libraries luaopen
                 [lib_base, lib_math, lib_string, lib_table, lib_utf8] L
      in L1\<lparr>globals := (globals L1)
              (''collectgarbage'' := LuaNil, ''debug'' := LuaNil, ''dofile'' := LuaNil,
               ''load'' := LuaNil, ''loadfile'' := LuaNil, ''print'' := LuaNil,
               ''require'' := LuaNil)\<rparr>)"

text \<open>Reading \<open>t.m\<close> in a script: the member \<open>m\<close> of the global table \<open>t\<close>.\<close>

definition global_member :: "lua_state \<Rightarrow> string \<Rightarrow> string \<Rightarrow> lua_value" where
  "global_member L t m =
     (case globals L t of
        LuaTable kvs \<Rightarrow> (case map_of kvs m of Some v \<Rightarrow> v | None \<Rightarrow> LuaNil)
      | _ \<Rightarrow> LuaNil)"

definition callable :: "lua_value \<Rightarrow> bool" where
  "callable v = (get_type v = type_function)"

section \<open>Variable bridge\<close>

text \<open>The assignment \<open>lua[varname_str] = value\<close> for each alternative of the variant.\<close>

fun lua_of_variable_value :: "variable_value \<Rightarrow> lua_value" where
  "lua_of_variable_value (VInteger i) = LuaInteger i"
| "lua_of_variable_value (VFloating d) = LuaFloat d"
| "lua_of_variable_value (VText s) = LuaString s"

definition import_variable :: "Context \<Rightarrow> string \<Rightarrow> lua_state \<Rightarrow> lua_state" where
  "import_variable ctx varname L =
     (case variables ctx varname of
        None \<Rightarrow> L
      | Some v \<Rightarrow> L\<lparr>globals := (globals L)(varname := lua_of_variable_value v)\<rparr>)"

definition copy_used_variables_from_context_to_lua ::
  "step \<Rightarrow> Context \<Rightarrow> lua_state \<Rightarrow> lua_state" where
  "copy_used_variables_from_context_to_lua s ctx L =
     fold (import_variable ctx) (used_context_variable_names s) L"

text \<open>
  The \<open>switch\<close> of the export loop on one value. For a number, \<open>var.is<long long>()\<close>
  decides; with \<open>SOL_SAFE_NUMERICS\<close> set to 1 (\<open>config.hpp\<close>: "so that we can actually
  differentiate integers from floating-point numbers") it holds exactly for a number
  the VM holds as an integer, and \<open>as<long long>()\<close> is that integer; any other
  number is read with \<open>as<double>()\<close>. A string is read with \<open>as<std::string>()\<close>,
  and \<open>default: break\<close> stores nothing.
\<close>

fun exported_value :: "lua_value \<Rightarrow> variable_value option" where
  "exported_value (LuaInteger i) = Some (VInteger i)"
| "exported_value (LuaFloat d) = Some (VFloating d)"
| "exported_value (LuaString s) = Some (VText s)"
| "exported_value _ = None"

definition export_variable :: "lua_state \<Rightarrow> string \<Rightarrow> Context \<Rightarrow> Context" where
  "export_variable L varname ctx =
     (case exported_value (globals L varname) of
        None \<Rightarrow> ctx
      | Some v \<Rightarrow> ctx\<lparr>variables := (variables ctx)(varname \<mapsto> v)\<rparr>)"

definition copy_used_variables_from_lua_to_context ::
  "step \<Rightarrow> lua_state \<Rightarrow> Context \<Rightarrow> Context" where
  "copy_used_variables_from_lua_to_context s L ctx =
     fold (export_variable L) (used_context_variable_names s) ctx"

section \<open>Step::execute\<close>

text \<open>
  Modelled from the spec: \<open>send_message\<close> is declared outside \<open>src/\<close>. Posting
  enqueues the message on the channel the pointer names (FIFO). What it does when
  handed the null pointer is said neither under \<open>src/\<close> nor in the specification;
  here it posts nothing, and no statement below about a claim rests on that case.
\<close>

definition send_message ::
  "store \<Rightarrow> comm_ptr \<Rightarrow> message_type \<Rightarrow> string \<Rightarrow> time_point \<Rightarrow> nat \<Rightarrow> store" where
  "send_message st comm ty txt ts index =
     (case comm of
        None \<Rightarrow> st
      | Some p \<Rightarrow>
          st(p := (st p)\<lparr>queue := queue (st p)
                   @ [\<lparr>msg_type = ty, msg_text = txt, msg_timestamp = ts,
                       msg_index = index\<rparr>]\<rparr>))"

text \<open>
  The ways the call \<open>lua.safe_script(get_script(), sol::script_default_on_error)\<close>
  can end: it throws a \<open>sol::error\<close> (carrying \<open>what()\<close>), it returns a result that
  is not \<open>valid()\<close> (carrying the \<open>what()\<close> of the error made from it), or it returns
  a valid result: the VM as the script left it and the values the script returned.
  The handler \<open>sol::script_default_on_error\<close> raises a failed protected call as
  \<open>sol::error\<close>; \<open>execute\<close> also tests the result for validity, so both forms
  are kept.
\<close>

datatype script_result =
  Script_throws string
  | Script_invalid string
  | Script_returns lua_state "lua_value list"

text \<open>
  What lies outside \<open>src/\<close> and \<open>execute\<close> depends on: the globals each standard
  library binds, the conversion of the timeout to seconds, and the interpreter,
  which maps the script text and the prepared VM to the way the call ends.
\<close>

record host =
  luaopen :: "lib \<Rightarrow> (string \<times> lua_value) list"
  duration_double :: "long_long \<Rightarrow> double"
  safe_script :: "string \<Rightarrow> lua_state \<Rightarrow> script_result"

text \<open>
  \<open>sol::optional<bool> result = protected_result\<close>: the first returned value, when
  it is a boolean.
\<close>

fun optional_bool :: "lua_value list \<Rightarrow> bool option" where
  "optional_bool (LuaBoolean b # _) = Some b"
| "optional_bool _ = None"

record exec_result =
  returned :: "error + bool"
  step_after :: step
  context_after :: Context
  store_after :: store

text \<open>
  The VM when \<open>safe_script\<close> is entered: the sandbox, the custom commands, the
  caller's initialiser, the hook with its registry entries, the imported variables.
\<close>

definition script_entry_state ::
  "host \<Rightarrow> step \<Rightarrow> Context \<Rightarrow> time_point \<Rightarrow> comm_ptr \<Rightarrow> lua_state" where
  "script_entry_state h s ctx now comm =
     (let lua0 = open_safe_library_subset (luaopen h) new_state;
          lua1 = install_custom_commands lua0;
          lua2 = (case lua_init_function ctx of None \<Rightarrow> lua1 | Some f \<Rightarrow> f lua1);
          lua3 = install_timeout_and_termination_request_hook (duration_double h)
                   lua2 now (timeout s) comm
      in copy_used_variables_from_context_to_lua s ctx lua3)"

text \<open>
  \<open>Step::execute\<close>. \<open>now\<close> is the clock reading at entry and \<open>later\<close> the one taken
  when the closing message is posted. The \<open>Error\<close> thrown for a result that is not
  valid is not a \<open>sol::error\<close>, so the handler does not see it. The outer
  \<open>bool result\<close> is still \<open>false\<close> where the closing message is composed.
\<close>

definition execute ::
  "host \<Rightarrow> time_point \<Rightarrow> time_point \<Rightarrow> step \<Rightarrow> Context \<Rightarrow> store \<Rightarrow> comm_ptr \<Rightarrow> nat
   \<Rightarrow> exec_result" where
  "execute h now later s ctx st comm index =
     (let s1 = s\<lparr>time_of_last_execution := now\<rparr>;
          st1 = send_message st comm step_started ''Step started'' now index;
          lua = script_entry_state h s1 ctx now comm;
          result = False
      in case safe_script h (script s1) lua of
           Script_invalid what \<Rightarrow>
             \<lparr>returned = Inl (Error (''Error while executing script of step ''
                                      @ string_of_nat index @ '': '' @ what)),
              step_after = s1, context_after = ctx, store_after = st1\<rparr>
         | Script_throws what \<Rightarrow>
             (let msg = ''Error while executing script of step ''
                        @ string_of_nat (index + 1) @ '': '' @ what
              in \<lparr>returned = Inl (Error msg), step_after = s1, context_after = ctx,
                  store_after = send_message st1 comm step_stopped_with_error msg
                                  later index\<rparr>)
         | Script_returns lua' rets \<Rightarrow>
             (let ctx' = copy_used_variables_from_lua_to_context s1 lua' ctx
              in case optional_bool rets of
                   Some b \<Rightarrow>
                     \<lparr>returned = Inr b, step_after = s1, context_after = ctx',
                      store_after = st1\<rparr>
                 | None \<Rightarrow>
                     \<lparr>returned = Inr result, step_after = s1, context_after = ctx',
                      store_after =
                        send_message st1 comm step_stopped
                          (''Step '' @ string_of_nat (index + 1)
                           @ '' finished (logical result: ''
                           @ (if result then ''true'' else ''false'') @ '')'')
                          later index\<rparr>))"

section \<open>Notions of the specification\<close>

text \<open>
  The integer a double denotes, if it denotes one: with biased exponent \<open>e\<close> and
  fraction \<open>f\<close>, a normal double is \<open>\<plusminus> (2^52 + f) * 2^(e - 1075)\<close>; zero is the
  only integer among the doubles with \<open>e = 0\<close>, and \<open>e = 2047\<close> is infinity or NaN.
\<close>

definition double_integer_value :: "double \<Rightarrow> int option" where
  "double_integer_value d =
     (let e = unat (drop_bit 52 d AND 0x7FF);
          f = uint (d AND 0xFFFFFFFFFFFFF);
          m = 2 ^ 52 + f;
          sgn = (if bit d 63 then - 1 else 1)
      in if e = 2047 then None
         else if e = 0 then (if f = 0 then Some 0 else None)
         else if 1075 \<le> e then Some (sgn * m * 2 ^ (e - 1075))
         else if m mod 2 ^ (1075 - e) = 0 then Some (sgn * (m div 2 ^ (1075 - e)))
         else None)"

text \<open>
  "Exactly representable as a signed 64-bit integer", for a number of the VM: every
  integer it holds is; a float is when it denotes an integer of that range.
\<close>

definition exactly_representable_int64 :: "lua_value \<Rightarrow> bool" where
  "exactly_representable_int64 v =
     (case v of
        LuaInteger _ \<Rightarrow> True
      | LuaFloat d \<Rightarrow>
          (case double_integer_value d of
             None \<Rightarrow> False
           | Some k \<Rightarrow> - (2 ^ 63) \<le> k \<and> k < 2 ^ 63)
      | _ \<Rightarrow> False)"

text \<open>The messages a channel has received, by type, in the order of posting.\<close>

definition posted :: "store \<Rightarrow> nat \<Rightarrow> message_type list" where
  "posted st p = map msg_type (queue (st p))"

text \<open>
  The state an abort leaves: the prefixed message stored in the registry and the
  abort hook installed on every line.
\<close>

definition abort_state :: "lua_state \<Rightarrow> string \<Rightarrow> lua_state" where
  "abort_state L msg =
     L\<lparr>registry := (registry L)\<lparr>abort_error_message := Some (''[ABORT] '' @ msg)\<rparr>,
       hook := Some (Hook_abort_with_error, LUA_MASKLINE, 0)\<rparr>"

text \<open>The termination flag of the channel the registry points to is set.\<close>

definition channel_flag_set :: "store \<Rightarrow> lua_state \<Rightarrow> bool" where
  "channel_flag_set st L =
     (case comm_channel (registry L) of
        Entry_channel p \<Rightarrow> immediate_termination_requested (st p)
      | _ \<Rightarrow> False)"

text \<open>The deadline entry is present and \<open>now_ms\<close> is strictly greater than it.\<close>

definition deadline_passed :: "long_long \<Rightarrow> lua_state \<Rightarrow> bool" where
  "deadline_passed now_ms L =
     (case step_timeout_ms_since_epoch (registry L) of
        Some d \<Rightarrow> d <s now_ms
      | None \<Rightarrow> False)"

text \<open>
  What running the script \<open>n = n\<close> does to the VM: it reads the global \<open>n\<close>, assigns
  the value to the global \<open>n\<close>, and returns no value.
\<close>

definition identity_assignment :: "string \<Rightarrow> lua_state \<Rightarrow> script_result" where
  "identity_assignment n L = Script_returns (L\<lparr>globals := (globals L)(n := globals L n)\<rparr>) []"

section \<open>Sample inputs\<close>

text \<open>
  An excerpt of what the standard libraries of the VM bind, as a sample value of the
  parameter \<open>luaopen\<close>.
\<close>

definition sample_luaopen :: "lib \<Rightarrow> (string \<times> lua_value) list" where
  "sample_luaopen l =
     (case l of
        lib_base \<Rightarrow>
          [(''collectgarbage'', LuaFunction ''collectgarbage''),
           (''dofile'', LuaFunction ''dofile''), (''load'', LuaFunction ''load''),
           (''loadfile'', LuaFunction ''loadfile''), (''print'', LuaFunction ''print''),
           (''pcall'', LuaFunction ''pcall''), (''tostring'', LuaFunction ''tostring'')]
      | lib_package \<Rightarrow> [(''require'', LuaFunction ''require''), (''package'', LuaTable [])]
      | lib_debug \<Rightarrow> [(''debug'', LuaTable [(''getregistry'', LuaFunction ''debug.getregistry'')])]
      | lib_math \<Rightarrow> [(''math'', LuaTable [(''sqrt'', LuaFunction ''math.sqrt'')])]
      | lib_string \<Rightarrow> [(''string'', LuaTable [(''upper'', LuaFunction ''string.upper'')])]
      | lib_table \<Rightarrow> [(''table'', LuaTable [(''concat'', LuaFunction ''table.concat'')])]
      | lib_utf8 \<Rightarrow> [(''utf8'', LuaTable [(''len'', LuaFunction ''utf8.len'')])]
      | _ \<Rightarrow> [])"

text \<open>A timeout conversion that always answers 0.5, as it does for 500 ms.\<close>

definition sample_duration_double :: "long_long \<Rightarrow> double" where
  "sample_duration_double tmo = 0x3FE0000000000000"

text \<open>A host around a given interpreter.\<close>

definition sample_host :: "(string \<Rightarrow> lua_state \<Rightarrow> script_result) \<Rightarrow> host" where
  "sample_host run =
     \<lparr>luaopen = sample_luaopen, duration_double = sample_duration_double,
      safe_script = run\<rparr>"

definition sample_step :: "string \<Rightarrow> string list \<Rightarrow> step" where
  "sample_step src names =
     \<lparr>script = src, used_context_variable_names = names, timeout = 500,
      time_of_last_execution = 0\<rparr>"

definition sample_context :: "(string \<times> variable_value) list \<Rightarrow> Context" where
  "sample_context kvs = \<lparr>variables = map_of kvs, lua_init_function = None\<rparr>"

text \<open>A store whose channels have no message and no termination request.\<close>

definition quiet_store :: store where
  "quiet_store = (\<lambda>_. \<lparr>immediate_termination_requested = False, queue = []\<rparr>)"

text \<open>
  The scripts \<open>return false\<close>, \<open>return 1, true\<close>, \<open>return [[yes]]\<close> and one without
  \<open>return\<close>, as the sample interpreter runs them.
\<close>

definition sample_returns :: "string \<Rightarrow> lua_state \<Rightarrow> script_result" where
  "sample_returns src L =
     Script_returns L
       (if src = ''return false'' then [LuaBoolean False]
        else if src = ''return 1, true'' then [LuaInteger 1, LuaBoolean True]
        else if src = ''return [[yes]]'' then [LuaString ''yes'']
        else [])"

text \<open>
  A VM with the globals \<open>a = 7\<close>, \<open>b = 1.5\<close>, \<open>c = [[hi]]\<close>, \<open>d = true\<close> and \<open>x = 1.0\<close>.
\<close>

definition sample_globals :: lua_state where
  "sample_globals =
     new_state\<lparr>globals := (globals new_state)
       (''a'' := LuaInteger 7, ''b'' := LuaFloat 0x3FF8000000000000,
        ''c'' := LuaString ''hi'', ''d'' := LuaBoolean True,
        ''x'' := LuaFloat 0x3FF0000000000000)\<rparr>"

text \<open>An interpreter that knows the script \<open>x = x\<close> only.\<close>

definition sample_identity :: "string \<Rightarrow> lua_state \<Rightarrow> script_result" where
  "sample_identity src L =
     (if src = ''x = x'' then identity_assignment ''x'' L
      else Script_throws ''unknown script'')"

text \<open>A store in which every channel has the termination flag set.\<close>

definition terminating_store :: store where
  "terminating_store = (\<lambda>_. \<lparr>immediate_termination_requested = True, queue = []\<rparr>)"

text \<open>
  The VM after the hook has been installed at time 1000 with a timeout of 500 and
  the channel at address 0: the deadline is 1500.
\<close>

definition sample_hooked :: lua_state where
  "sample_hooked =
     install_timeout_and_termination_request_hook sample_duration_double new_state
       1000 500 (Some 0)"

text \<open>
  The VM after the hook has been installed at time 1000 with a timeout of 500 and
  the null pointer as the channel.
\<close>

definition sample_unchannelled :: lua_state where
  "sample_unchannelled =
     install_timeout_and_termination_request_hook sample_duration_double new_state
       1000 500 None"

text \<open>The VM \<open>sample_hooked\<close> with a number stored under the channel key.\<close>

definition sample_foreign :: lua_state where
  "sample_foreign =
     sample_hooked\<lparr>registry := (registry sample_hooked)\<lparr>comm_channel := Entry_foreign\<rparr>\<rparr>"

text \<open>A rendering of doubles that always answers "0.5".\<close>

definition sample_cat_double :: "double \<Rightarrow> string" where
  "sample_cat_double d = ''0.5''"

section \<open>Auxiliary facts\<close>

lemma string_of_nat_digit: "n < 10 \<Longrightarrow> string_of_nat n = [''0123456789'' ! n]"
  by (simp add: string_of_nat.simps)

lemma script_entry_state_time:
  "script_entry_state h (s\<lparr>time_of_last_execution := t\<rparr>) ctx now comm
   = script_entry_state h s ctx now comm"
  by (simp add: script_entry_state_def copy_used_variables_from_context_to_lua_def)

lemma posted_send_message:
  "posted (send_message st (Some p) ty txt ts i) p = posted st p @ [ty]"
  by (simp add: posted_def send_message_def)

text \<open>The types of the messages one call posts, for each way the script can end.\<close>

lemma execute_posted:
  "posted (store_after (execute h now later s ctx st (Some p) index)) p =
     posted st p @
       (case safe_script h (script s) (script_entry_state h s ctx now (Some p)) of
          Script_throws _ \<Rightarrow> [step_started, step_stopped_with_error]
        | Script_invalid _ \<Rightarrow> [step_started]
        | Script_returns _ rets \<Rightarrow>
            (case optional_bool rets of
               Some _ \<Rightarrow> [step_started]
             | None \<Rightarrow> [step_started, step_stopped]))"
  by (simp add: execute_def Let_def script_entry_state_time posted_send_message
        split: script_result.splits option.splits)

text \<open>
  The branch for a result that is not valid: the message counts the step from
  \<open>index\<close>, and no closing message is posted.
\<close>

lemma execute_invalid_result:
  assumes "safe_script h (script s) (script_entry_state h s ctx now comm) = Script_invalid what"
  shows "returned (execute h now later s ctx st comm index) =
           Inl (Error (''Error while executing script of step '' @ string_of_nat index
                       @ '': '' @ what))"
    and "store_after (execute h now later s ctx st comm index) =
           send_message st comm step_started ''Step started'' now index"
  using assms by (simp_all add: execute_def Let_def script_entry_state_time)

subsection \<open>The bridge, name by name\<close>

lemma variables_export_variable:
  "variables (export_variable L m ctx) n =
     (if n = m
      then (case exported_value (globals L m) of Some v \<Rightarrow> Some v | None \<Rightarrow> variables ctx n)
      else variables ctx n)"
  by (simp add: export_variable_def split: option.splits)

lemma variables_fold_export:
  "variables (fold (export_variable L) ns ctx) n =
     (if n \<in> set ns
      then (case exported_value (globals L n) of Some v \<Rightarrow> Some v | None \<Rightarrow> variables ctx n)
      else variables ctx n)"
  by (induction ns arbitrary: ctx) (auto simp: variables_export_variable split: option.splits)

lemma globals_import_variable:
  "globals (import_variable ctx m L) n =
     (if n = m
      then (case variables ctx m of Some v \<Rightarrow> lua_of_variable_value v | None \<Rightarrow> globals L n)
      else globals L n)"
  by (simp add: import_variable_def split: option.splits)

lemma globals_fold_import:
  "globals (fold (import_variable ctx) ns L) n =
     (if n \<in> set ns
      then (case variables ctx n of Some v \<Rightarrow> lua_of_variable_value v | None \<Rightarrow> globals L n)
      else globals L n)"
  by (induction ns arbitrary: L) (auto simp: globals_import_variable split: option.splits)


lemma hook_fold_import: "hook (fold (import_variable ctx) ns L) = hook L"
  by (induction ns arbitrary: L) (auto simp: import_variable_def split: option.splits)

lemma exported_lua_of_variable_value: "exported_value (lua_of_variable_value v) = Some v"
  by (cases v) simp_all

text \<open>Names outside the whitelist keep their context value.\<close>

lemma export_other_names:
  "n \<notin> set (used_context_variable_names s) \<Longrightarrow>
   variables (copy_used_variables_from_lua_to_context s L ctx) n = variables ctx n"
  by (simp add: copy_used_variables_from_lua_to_context_def variables_fold_export)

subsection \<open>Aborting\<close>

lemma abort_script_with_error_raises:
  "abort_script_with_error L msg = Raises (''[ABORT] '' @ msg) (abort_state L msg)"
  by (simp add: abort_script_with_error_def hook_abort_with_error_def abort_state_def)

lemma hook_cases:
  "hook_check_timeout_and_termination_request cat st now_ms L =
     (if comm_channel (registry L) = Entry_foreign
      then Raises ''[ABORT] TASKOMAT_COMM_CHANNEL not found in LUA registry''
             (abort_state L ''TASKOMAT_COMM_CHANNEL not found in LUA registry'')
      else if channel_flag_set st L
      then Raises ''[ABORT] Step aborted on user request''
             (abort_state L ''Step aborted on user request'')
      else if step_timeout_ms_since_epoch (registry L) = None
      then Raises ''[ABORT] Timeout time point not found in LUA registry (TASKOMAT_STEP_TIMEOUT_MS_SINCE_EPOCH)''
             (abort_state L ''Timeout time point not found in LUA registry (TASKOMAT_STEP_TIMEOUT_MS_SINCE_EPOCH)'')
      else if deadline_passed now_ms L
      then Raises (''[ABORT] Timeout: Script took more than ''
                   @ cat (case step_timeout_s (registry L) of
                            Some x \<Rightarrow> x | None \<Rightarrow> minus_one_double)
                   @ '' s to run'')
             (abort_state L
                (''Timeout: Script took more than ''
                 @ cat (case step_timeout_s (registry L) of
                          Some x \<Rightarrow> x | None \<Rightarrow> minus_one_double)
                 @ '' s to run''))
      else Returns L)"
  by (simp add: hook_check_timeout_and_termination_request_def
        check_immediate_termination_request_def check_script_timeout_def
        abort_script_with_error_raises channel_flag_set_def deadline_passed_def
        comm_channel_key_def step_timeout_ms_since_epoch_key_def Let_def
        split: option.splits channel_entry.splits)

subsection \<open>Signed arithmetic of the deadline\<close>

lemma sint_long_long_max: "sint long_long_max = 2 ^ 63 - 1"
  by (simp add: long_long_max_def)

lemma sint_max_minus:
  assumes "0 \<le> sint (t0 :: long_long)"
  shows "sint (long_long_max - t0) = 2 ^ 63 - 1 - sint t0"
proof -
  have "sint t0 < 2 ^ 63" using sint_lt [of t0] by simp
  with assms show ?thesis
    unfolding sint_word_ariths sint_long_long_max
    by (intro signed_take_bit_int_eq_self) simp_all
qed

lemma sint_get_ms_since_epoch:
  assumes "0 \<le> sint t0" and "0 \<le> sint dt"
  shows "sint (get_ms_since_epoch t0 dt) =
           (if sint t0 + sint dt \<le> 2 ^ 63 - 1 then sint t0 + sint dt else 2 ^ 63 - 1)"
proof -
  have m: "sint (long_long_max - t0) = 2 ^ 63 - 1 - sint t0"
    using assms(1) by (rule sint_max_minus)
  show ?thesis
  proof (cases "sint dt < 2 ^ 63 - 1 - sint t0")
    case True
    have "sint (t0 + dt) = sint t0 + sint dt"
      unfolding sint_word_ariths
      by (rule signed_take_bit_int_eq_self) (use assms True in simp_all)
    with True m show ?thesis
      by (simp add: get_ms_since_epoch_def Let_def word_sless_alt)
  next
    case False
    with m show ?thesis
      by (auto simp add: get_ms_since_epoch_def Let_def word_sless_alt sint_long_long_max)
  qed
qed

text \<open>A timeout set through \<open>set_timeout\<close> is never negative.\<close>

lemma timeout_set_timeout: "0 \<le> sint (timeout (set_timeout s tmo))"
  by (simp add: set_timeout_def word_sless_alt)

subsection \<open>Opening libraries\<close>

lemma libraries_open_libraries:
  "libraries (open_libraries opn ls L) = libraries L @ ls"
  by (induction ls arbitrary: L) (simp_all add: open_libraries_def open_library_def)

section \<open>Messages of one call (C1)\<close>

text \<open>
  C1 asks for \<open>step_started\<close> followed by exactly one closing message on every call.
  At the script \<open>return true\<close> the call returns \<open>true\<close> from inside the \<open>try\<close> block,
  before the closing \<open>step_stopped\<close> is posted: the channel holds \<open>step_started\<close>
  alone.
\<close>

theorem execute_return_true_posts_no_step_stopped:
  "returned (execute (sample_host (\<lambda>src L. Script_returns L [LuaBoolean True])) 1000 1001
              (sample_step ''return true'' []) (sample_context []) quiet_store (Some 0) 0)
     = Inr True
   \<and> posted (store_after
        (execute (sample_host (\<lambda>src L. Script_returns L [LuaBoolean True])) 1000 1001
           (sample_step ''return true'' []) (sample_context []) quiet_store (Some 0) 0)) 0
     = [step_started]"
  by (simp add: execute_def Let_def sample_host_def posted_def send_message_def quiet_store_def)

section \<open>The result of a successful call (C2)\<close>

text \<open>
  C2: when the script runs to completion without error, \<open>execute\<close> returns the
  boolean the script returned, if it returned one, and \<open>false\<close> otherwise (a number,
  a string, nothing).
\<close>

theorem execute_returns_script_boolean:
  assumes "safe_script h (script s) (script_entry_state h s ctx now comm)
             = Script_returns L rets"
  shows "returned (execute h now later s ctx st comm index) =
           Inr (case rets of LuaBoolean b # _ \<Rightarrow> b | _ \<Rightarrow> False)"
  using assms
  by (cases rets rule: optional_bool.cases)
     (simp_all add: execute_def Let_def script_entry_state_time)

theorem execute_returns_script_boolean_witness:
  "returned (execute (sample_host (\<lambda>src L. Script_returns L [LuaBoolean True])) 1000 1001
              (sample_step ''return true'' []) (sample_context []) quiet_store (Some 0) 0)
     = Inr True
   \<and> returned (execute (sample_host sample_returns) 1000 1001
              (sample_step ''return false'' []) (sample_context []) quiet_store (Some 0) 0)
     = Inr False
   \<and> returned (execute (sample_host sample_returns) 1000 1001
              (sample_step ''return 1, true'' []) (sample_context []) quiet_store (Some 0) 0)
     = Inr False
   \<and> returned (execute (sample_host sample_returns) 1000 1001
              (sample_step ''return [[yes]]'' []) (sample_context []) quiet_store (Some 0) 0)
     = Inr False
   \<and> returned (execute (sample_host sample_returns) 1000 1001
              (sample_step ''x = 1'' []) (sample_context []) quiet_store (Some 0) 0)
     = Inr False"
proof -
  have t: "safe_script (sample_host (\<lambda>src L. Script_returns L [LuaBoolean True])) src L
             = Script_returns L [LuaBoolean True]" for src L
    by (simp add: sample_host_def)
  have r: "safe_script (sample_host sample_returns) (script (sample_step src [])) L
             = Script_returns L
                 (if src = ''return false'' then [LuaBoolean False]
                  else if src = ''return 1, true'' then [LuaInteger 1, LuaBoolean True]
                  else if src = ''return [[yes]]'' then [LuaString ''yes'']
                  else [])" for src L
    by (simp add: sample_host_def sample_step_def sample_returns_def)
  show ?thesis
    using execute_returns_script_boolean [where s = "sample_step ''return true'' []"
            and ctx = "sample_context []" and now = 1000 and comm = "Some 0"
            and later = 1001 and st = quiet_store and index = 0, OF t]
          execute_returns_script_boolean [where s = "sample_step ''return false'' []"
            and ctx = "sample_context []" and now = 1000 and comm = "Some 0"
            and later = 1001 and st = quiet_store and index = 0, OF r]
          execute_returns_script_boolean [where s = "sample_step ''return 1, true'' []"
            and ctx = "sample_context []" and now = 1000 and comm = "Some 0"
            and later = 1001 and st = quiet_store and index = 0, OF r]
          execute_returns_script_boolean [where s = "sample_step ''return [[yes]]'' []"
            and ctx = "sample_context []" and now = 1000 and comm = "Some 0"
            and later = 1001 and st = quiet_store and index = 0, OF r]
          execute_returns_script_boolean [where s = "sample_step ''x = 1'' []"
            and ctx = "sample_context []" and now = 1000 and comm = "Some 0"
            and later = 1001 and st = quiet_store and index = 0, OF r]
    by simp
qed

section \<open>A failing script (C3)\<close>

text \<open>
  C3: when the protected call of the script fails, \<open>execute\<close> composes the message
  "Error while executing script of step <index+1>: <vm-message>", posts a
  \<open>step_stopped_with_error\<close> with that text on the channel (after the
  \<open>step_started\<close> of the call) and fails with exactly that message. Under
  \<open>sol::script_default_on_error\<close> the failure reaches \<open>execute\<close> as a thrown
  \<open>sol::error\<close>, whose \<open>what()\<close> is the message of the VM.
\<close>

theorem execute_script_error_message:
  assumes "safe_script h (script s) (script_entry_state h s ctx now (Some p))
             = Script_throws vm"
  shows "returned (execute h now later s ctx st (Some p) index) =
           Inl (Error (''Error while executing script of step ''
                       @ string_of_nat (index + 1) @ '': '' @ vm))
       \<and> queue (store_after (execute h now later s ctx st (Some p) index) p) =
           queue (st p) @
            [\<lparr>msg_type = step_started, msg_text = ''Step started'', msg_timestamp = now,
              msg_index = index\<rparr>,
             \<lparr>msg_type = step_stopped_with_error,
              msg_text = ''Error while executing script of step ''
                         @ string_of_nat (index + 1) @ '': '' @ vm,
              msg_timestamp = later, msg_index = index\<rparr>]"
  using assms
  by (simp add: execute_def Let_def send_message_def script_entry_state_time)

theorem execute_script_error_message_witness:
  "returned (execute (sample_host (\<lambda>src L. Script_throws ''attempt to call a nil value''))
              1000 1001 (sample_step ''print(1)'' []) (sample_context []) quiet_store
              (Some 0) 41)
     = Inl (Error ''Error while executing script of step 42: attempt to call a nil value'')
   \<and> queue (store_after
        (execute (sample_host (\<lambda>src L. Script_throws ''attempt to call a nil value''))
           1000 1001 (sample_step ''print(1)'' []) (sample_context []) quiet_store
           (Some 0) 41) 0)
     = [\<lparr>msg_type = step_started, msg_text = ''Step started'', msg_timestamp = 1000,
         msg_index = 41\<rparr>,
        \<lparr>msg_type = step_stopped_with_error,
         msg_text = ''Error while executing script of step 42: attempt to call a nil value'',
         msg_timestamp = 1001, msg_index = 41\<rparr>]"
proof -
  have t: "safe_script (sample_host (\<lambda>src L. Script_throws ''attempt to call a nil value''))
             src L = Script_throws ''attempt to call a nil value''" for src L
    by (simp add: sample_host_def)
  have n: "string_of_nat 42 = ''42''"
    by (simp add: string_of_nat.simps)
  show ?thesis
    using execute_script_error_message [where s = "sample_step ''print(1)'' []"
            and ctx = "sample_context []" and now = 1000 and p = 0 and later = 1001
            and st = quiet_store and index = 41, OF t]
    by (simp add: n quiet_store_def)
qed

section \<open>Export by type (C4)\<close>

text \<open>
  C4 as stated does not hold: the float \<open>1.0\<close> is a number, and it is exactly
  representable as a signed 64-bit integer, yet the export stores it as the
  floating variant, because the VM holds it as a float.
\<close>

theorem export_integral_float_stays_floating:
  "get_type (globals sample_globals ''x'') = type_number
   \<and> exactly_representable_int64 (globals sample_globals ''x'')
   \<and> variables (copy_used_variables_from_lua_to_context (sample_step ''x = 1.0'' [''x''])
                  sample_globals (sample_context [])) ''x''
       = Some (VFloating 0x3FF0000000000000)"
  by (simp add: sample_globals_def exactly_representable_int64_def double_integer_value_def
        Let_def copy_used_variables_from_lua_to_context_def export_variable_def
        sample_step_def)

text \<open>
  C4, amended: for every name of the export whitelist, a number becomes the integer
  variant iff the VM holds it as an integer (then it is a signed 64-bit value), and
  the floating variant otherwise, also when the float has an integral value; a
  string becomes the text variant; a value of any other type is skipped, and the
  context keeps what it had under that name.
\<close>

theorem export_stores_by_type:
  assumes "n \<in> set (used_context_variable_names s)"
  shows "variables (copy_used_variables_from_lua_to_context s L ctx) n =
           (case globals L n of
              LuaInteger i \<Rightarrow> Some (VInteger i)
            | LuaFloat d \<Rightarrow> Some (VFloating d)
            | LuaString t \<Rightarrow> Some (VText t)
            | _ \<Rightarrow> variables ctx n)
       \<and> (get_type (globals L n) \<noteq> type_number \<and> get_type (globals L n) \<noteq> type_string
            \<longrightarrow> variables (copy_used_variables_from_lua_to_context s L ctx) n
                 = variables ctx n)"
  using assms
  by (cases "globals L n")
     (simp_all add: copy_used_variables_from_lua_to_context_def variables_fold_export)

theorem export_stores_by_type_witness:
  "variables (copy_used_variables_from_lua_to_context
               (sample_step ''c = [[hi]]'' [''a'', ''b'', ''c'', ''d''])
               sample_globals (sample_context [(''d'', VInteger 3)])) ''a''
     = Some (VInteger 7)
   \<and> variables (copy_used_variables_from_lua_to_context
               (sample_step ''c = [[hi]]'' [''a'', ''b'', ''c'', ''d''])
               sample_globals (sample_context [(''d'', VInteger 3)])) ''b''
     = Some (VFloating 0x3FF8000000000000)
   \<and> variables (copy_used_variables_from_lua_to_context
               (sample_step ''c = [[hi]]'' [''a'', ''b'', ''c'', ''d''])
               sample_globals (sample_context [(''d'', VInteger 3)])) ''c''
     = Some (VText ''hi'')
   \<and> variables (copy_used_variables_from_lua_to_context
               (sample_step ''c = [[hi]]'' [''a'', ''b'', ''c'', ''d''])
               sample_globals (sample_context [(''d'', VInteger 3)])) ''d''
     = Some (VInteger 3)"
proof -
  have m: "n \<in> set (used_context_variable_names
                      (sample_step ''c = [[hi]]'' [''a'', ''b'', ''c'', ''d'']))"
    if "n \<in> {''a'', ''b'', ''c'', ''d''}" for n
    using that by (auto simp add: sample_step_def)
  show ?thesis
    using export_stores_by_type [OF m, of "''a''" sample_globals
            "sample_context [(''d'', VInteger 3)]"]
          export_stores_by_type [OF m, of "''b''" sample_globals
            "sample_context [(''d'', VInteger 3)]"]
          export_stores_by_type [OF m, of "''c''" sample_globals
            "sample_context [(''d'', VInteger 3)]"]
          export_stores_by_type [OF m, of "''d''" sample_globals
            "sample_context [(''d'', VInteger 3)]"]
    by (simp add: sample_globals_def new_state_def sample_context_def)
qed

section \<open>The deadline (C6)\<close>

text \<open>
  C6 says that the deadline written into the registry is the start time plus the
  timeout, and the maximum only when that sum overflows. One millisecond before the
  epoch, with a timeout of zero, the sum is \<open>-1\<close> and does not overflow, but the
  deadline written is the maximum: the guard \<open>max - t0_ms\<close> itself leaves the signed
  64-bit range.
\<close>

theorem get_ms_since_epoch_before_epoch:
  "0 \<le> sint (0 :: long_long)
   \<and> sint (- 1 :: long_long) + sint (0 :: long_long) = - 1
   \<and> step_timeout_ms_since_epoch
        (registry (install_timeout_and_termination_request_hook sample_duration_double
                     new_state (- 1) 0 None))
       = Some long_long_max
   \<and> sint long_long_max = 2 ^ 63 - 1"
  by (simp add: install_timeout_and_termination_request_hook_def get_ms_since_epoch_def
        Let_def long_long_max_def word_sless_alt)

text \<open>
  For a start time at or after the epoch and a non-negative timeout the deadline is
  the sum, or the maximum when the sum exceeds it.
\<close>

lemma deadline_after_epoch:
  assumes "0 \<le> sint now" and "0 \<le> sint tmo"
  shows "\<exists>d. step_timeout_ms_since_epoch
               (registry (install_timeout_and_termination_request_hook dd L now tmo comm))
             = Some d
           \<and> d = get_ms_since_epoch now tmo
           \<and> sint d = (if sint now + sint tmo \<le> 2 ^ 63 - 1 then sint now + sint tmo
                       else 2 ^ 63 - 1)"
  using sint_get_ms_since_epoch [OF assms]
  by (simp add: install_timeout_and_termination_request_hook_def)

lemma deadline_after_epoch_example:
  "(\<exists>d. step_timeout_ms_since_epoch
          (registry (install_timeout_and_termination_request_hook sample_duration_double
                       new_state 1000 500 None)) = Some d
        \<and> sint d = 1500)
   \<and> (\<exists>d. step_timeout_ms_since_epoch
          (registry (install_timeout_and_termination_request_hook sample_duration_double
                       new_state 0x7FFFFFFFFFFFFFF0 500 None)) = Some d
        \<and> sint d = 2 ^ 63 - 1)"
proof -
  have a: "0 \<le> sint (1000 :: long_long)" and b: "0 \<le> sint (500 :: long_long)"
    and c: "0 \<le> sint (0x7FFFFFFFFFFFFFF0 :: long_long)"
    by simp_all
  show ?thesis
    using deadline_after_epoch [OF a b, of sample_duration_double new_state None]
          deadline_after_epoch [OF c b, of sample_duration_double new_state None]
    by simp
qed

section \<open>The periodic check hook (C5)\<close>

lemma sample_hooked_registry:
  "comm_channel (registry sample_hooked) = Entry_channel 0"
  "step_timeout_ms_since_epoch (registry sample_hooked) = Some 1500"
  "step_timeout_s (registry sample_hooked) = Some 0x3FE0000000000000"
  by (simp_all add: sample_hooked_def install_timeout_and_termination_request_hook_def
        get_ms_since_epoch_def Let_def long_long_max_def word_sless_alt
        sample_duration_double_def)

lemma sample_unchannelled_registry:
  "comm_channel (registry sample_unchannelled) = Entry_absent"
  "step_timeout_ms_since_epoch (registry sample_unchannelled) = Some 1500"
  "step_timeout_s (registry sample_unchannelled) = Some 0x3FE0000000000000"
  by (simp_all add: sample_unchannelled_def install_timeout_and_termination_request_hook_def
        get_ms_since_epoch_def Let_def long_long_max_def word_sless_alt
        sample_duration_double_def)

lemma sample_foreign_registry:
  "comm_channel (registry sample_foreign) = Entry_foreign"
  by (simp add: sample_foreign_def)

text \<open>
  C5 as stated does not hold for an absent channel entry. After the hook has been
  installed with the null pointer the channel key is absent, and the hook, fired
  before the deadline, returns and leaves the VM as it was; on a fresh VM, where
  both keys are absent, the abort it raises is the one for the missing deadline,
  not the channel-not-found one.
\<close>

theorem hook_absent_channel_entry_no_abort:
  "comm_channel (registry sample_unchannelled) = Entry_absent
   \<and> hook_check_timeout_and_termination_request sample_cat_double quiet_store 1200
        sample_unchannelled
       = Returns sample_unchannelled
   \<and> comm_channel (registry new_state) = Entry_absent
   \<and> hook_check_timeout_and_termination_request sample_cat_double quiet_store 1200
        new_state
       = Raises ''[ABORT] Timeout time point not found in LUA registry (TASKOMAT_STEP_TIMEOUT_MS_SINCE_EPOCH)''
           (abort_state new_state
              ''Timeout time point not found in LUA registry (TASKOMAT_STEP_TIMEOUT_MS_SINCE_EPOCH)'')"
  by (simp add: hook_cases sample_unchannelled_registry channel_flag_set_def
        deadline_passed_def word_sless_alt new_state_def)

text \<open>
  C5, amended: the periodic check hook, installed to fire every 100 VM instructions,
  aborts the script with an "[ABORT] "-prefixed error in exactly these cases: the
  channel entry of the registry holds a value that is not a channel
  (channel-not-found error), whereas an absent entry is read as the null pointer
  and raises nothing; the termination flag of the stored channel is set ("Step
  aborted on user request"); the deadline entry is absent; or \<open>now_ms\<close> is strictly
  greater than the stored deadline ("Timeout: Script took more than <s> s to run",
  \<open><s>\<close> the timeout in seconds written at installation). Otherwise it returns and
  leaves the VM as it was.
\<close>

theorem hook_aborts_exactly_when:
  "((\<exists>msg L'. hook_check_timeout_and_termination_request cat st now_ms L
               = Raises (''[ABORT] '' @ msg) L')
      \<longleftrightarrow> (comm_channel (registry L) = Entry_foreign \<or> channel_flag_set st L
           \<or> step_timeout_ms_since_epoch (registry L) = None \<or> deadline_passed now_ms L))
   \<and> (\<not> (comm_channel (registry L) = Entry_foreign \<or> channel_flag_set st L
           \<or> step_timeout_ms_since_epoch (registry L) = None \<or> deadline_passed now_ms L)
        \<longrightarrow> hook_check_timeout_and_termination_request cat st now_ms L = Returns L)
   \<and> (comm_channel (registry L) = Entry_foreign
        \<longrightarrow> hook_check_timeout_and_termination_request cat st now_ms L
             = Raises ''[ABORT] TASKOMAT_COMM_CHANNEL not found in LUA registry''
                 (abort_state L ''TASKOMAT_COMM_CHANNEL not found in LUA registry''))
   \<and> (comm_channel (registry L) = Entry_absent
        \<longrightarrow> check_immediate_termination_request st L = Returns L)
   \<and> (channel_flag_set st L
        \<longrightarrow> hook_check_timeout_and_termination_request cat st now_ms L
             = Raises ''[ABORT] Step aborted on user request''
                 (abort_state L ''Step aborted on user request''))
   \<and> (comm_channel (registry L) \<noteq> Entry_foreign \<and> \<not> channel_flag_set st L
        \<and> deadline_passed now_ms L \<and> step_timeout_s (registry L) = Some secs
        \<longrightarrow> hook_check_timeout_and_termination_request cat st now_ms L
             = Raises (''[ABORT] Timeout: Script took more than '' @ cat secs @ '' s to run'')
                 (abort_state L
                    (''Timeout: Script took more than '' @ cat secs @ '' s to run'')))
   \<and> hook (install_timeout_and_termination_request_hook dd L now tmo comm)
       = Some (Hook_check_timeout_and_termination_request, LUA_MASKCOUNT, 100)
   \<and> step_timeout_s (registry (install_timeout_and_termination_request_hook dd L now tmo comm))
       = Some (dd tmo)"
proof -
  have f: "channel_flag_set st L \<Longrightarrow> comm_channel (registry L) \<noteq> Entry_foreign"
    by (auto simp add: channel_flag_set_def split: channel_entry.splits)
  have d: "deadline_passed now_ms L \<Longrightarrow> step_timeout_ms_since_epoch (registry L) \<noteq> None"
    by (auto simp add: deadline_passed_def split: option.splits)
  have a: "comm_channel (registry L) = Entry_absent
           \<Longrightarrow> check_immediate_termination_request st L = Returns L"
    by (simp add: check_immediate_termination_request_def)
  show ?thesis
    using f d a
    by (auto simp add: hook_cases install_timeout_and_termination_request_hook_def)
qed

theorem hook_aborts_exactly_when_witness:
  "hook_check_timeout_and_termination_request sample_cat_double quiet_store 1500
     sample_hooked
     = Returns sample_hooked
   \<and> hook_check_timeout_and_termination_request sample_cat_double quiet_store 1501
        sample_hooked
     = Raises ''[ABORT] Timeout: Script took more than 0.5 s to run''
         (abort_state sample_hooked ''Timeout: Script took more than 0.5 s to run'')
   \<and> hook_check_timeout_and_termination_request sample_cat_double terminating_store 1200
        sample_hooked
     = Raises ''[ABORT] Step aborted on user request''
         (abort_state sample_hooked ''Step aborted on user request'')
   \<and> hook_check_timeout_and_termination_request sample_cat_double quiet_store 1200
        sample_foreign
     = Raises ''[ABORT] TASKOMAT_COMM_CHANNEL not found in LUA registry''
         (abort_state sample_foreign ''TASKOMAT_COMM_CHANNEL not found in LUA registry'')
   \<and> check_immediate_termination_request terminating_store sample_unchannelled
     = Returns sample_unchannelled"
proof -
  have q: "\<not> channel_flag_set quiet_store sample_hooked"
    "channel_flag_set terminating_store sample_hooked"
    by (simp_all add: channel_flag_set_def sample_hooked_registry quiet_store_def
          terminating_store_def)
  have p: "\<not> deadline_passed 1500 sample_hooked" "deadline_passed 1501 sample_hooked"
    by (simp_all add: deadline_passed_def sample_hooked_registry word_sless_alt)
  have c: "sample_cat_double 0x3FE0000000000000 = ''0.5''"
    by (simp add: sample_cat_double_def)
  show ?thesis
    using hook_aborts_exactly_when [of sample_cat_double quiet_store 1500 sample_hooked]
          hook_aborts_exactly_when [of sample_cat_double quiet_store 1501 sample_hooked
            "0x3FE0000000000000"]
          hook_aborts_exactly_when [of sample_cat_double terminating_store 1200
            sample_hooked]
          hook_aborts_exactly_when [of sample_cat_double quiet_store 1200 sample_foreign]
          hook_aborts_exactly_when [of sample_cat_double terminating_store 1200
            sample_unchannelled]
    by (simp add: sample_hooked_registry sample_unchannelled_registry
          sample_foreign_registry q p c)
qed

section \<open>The context on failure (C7)\<close>

text \<open>
  C7: when \<open>execute\<close> fails (script error, timeout or cancellation, all of which
  end the protected call with an error), the variables of the context are as they
  were before the call: only the export changes the context, and the export is
  reached on no error path.
\<close>

theorem execute_failure_keeps_context:
  "(isl (returned (execute h now later s ctx st comm index))
      \<longrightarrow> context_after (execute h now later s ctx st comm index) = ctx)
   \<and> (\<forall>L rets.
        safe_script h (script s) (script_entry_state h s ctx now comm) = Script_returns L rets
        \<longrightarrow> context_after (execute h now later s ctx st comm index)
             = copy_used_variables_from_lua_to_context s L ctx)"
  by (auto simp add: execute_def Let_def script_entry_state_time
        copy_used_variables_from_lua_to_context_def
        split: script_result.splits option.splits)

theorem execute_failure_keeps_context_witness:
  "isl (returned (execute
          (sample_host (\<lambda>src L. Script_throws ''[ABORT] Step aborted on user request''))
          1000 1001 (sample_step ''while true do a = 1 end'' [''a''])
          (sample_context [(''a'', VInteger 3)]) terminating_store (Some 0) 0))
   \<and> context_after (execute
          (sample_host (\<lambda>src L. Script_throws ''[ABORT] Step aborted on user request''))
          1000 1001 (sample_step ''while true do a = 1 end'' [''a''])
          (sample_context [(''a'', VInteger 3)]) terminating_store (Some 0) 0)
       = sample_context [(''a'', VInteger 3)]"
proof -
  have i: "isl (returned (execute
          (sample_host (\<lambda>src L. Script_throws ''[ABORT] Step aborted on user request''))
          1000 1001 (sample_step ''while true do a = 1 end'' [''a''])
          (sample_context [(''a'', VInteger 3)]) terminating_store (Some 0) 0))"
    by (simp add: execute_def Let_def sample_host_def)
  show ?thesis
    using i execute_failure_keeps_context
            [of "sample_host (\<lambda>src L. Script_throws ''[ABORT] Step aborted on user request'')"
               1000 1001 "sample_step ''while true do a = 1 end'' [''a'']"
               "sample_context [(''a'', VInteger 3)]" terminating_store "Some 0" 0]
    by simp
qed

section \<open>Round trip (C8)\<close>

text \<open>
  C8: for every name \<open>n\<close> of the whitelist whose context value is an integer, a
  floating or a text value, importing the variables, running the script \<open>n = n\<close>
  and exporting them leaves the context with the same value under \<open>n\<close>: the same
  variant with the same payload.
\<close>

theorem identity_script_round_trip:
  assumes "n \<in> set (used_context_variable_names s)"
      and "variables ctx n = Some v"
      and "script s = n @ '' = '' @ n"
      and "\<And>L. safe_script h (n @ '' = '' @ n) L = identity_assignment n L"
  shows "variables (context_after (execute h now later s ctx st comm index)) n = Some v
       \<and> returned (execute h now later s ctx st comm index) = Inr False"
proof -
  let ?L0 = "script_entry_state h s ctx now comm"
  have g: "globals ?L0 n = lua_of_variable_value v"
    using assms(1,2)
    by (simp add: script_entry_state_def Let_def copy_used_variables_from_context_to_lua_def
          globals_fold_import)
  have r: "safe_script h (script s) ?L0 = identity_assignment n ?L0"
    using assms(3,4) by simp
  show ?thesis
    using assms(1) g
    by (simp add: execute_def Let_def script_entry_state_time r identity_assignment_def
          copy_used_variables_from_lua_to_context_def variables_fold_export
          exported_lua_of_variable_value)
qed

theorem identity_script_round_trip_witness:
  "variables (context_after (execute (sample_host sample_identity) 1000 1001
                (sample_step ''x = x'' [''x''])
                (sample_context [(''x'', VFloating 0x4000000000000000)])
                quiet_store (Some 0) 0)) ''x''
     = Some (VFloating 0x4000000000000000)
   \<and> variables (context_after (execute (sample_host sample_identity) 1000 1001
                (sample_step ''x = x'' [''x''])
                (sample_context [(''x'', VInteger 5)])
                quiet_store (Some 0) 0)) ''x''
     = Some (VInteger 5)
   \<and> variables (context_after (execute (sample_host sample_identity) 1000 1001
                (sample_step ''x = x'' [''x''])
                (sample_context [(''x'', VText ''five'')])
                quiet_store (Some 0) 0)) ''x''
     = Some (VText ''five'')"
proof -
  have m: "''x'' \<in> set (used_context_variable_names (sample_step ''x = x'' [''x'']))"
    by (simp add: sample_step_def)
  have c: "variables (sample_context [(''x'', v)]) ''x'' = Some v" for v
    by (simp add: sample_context_def)
  have t: "script (sample_step ''x = x'' [''x'']) = ''x'' @ '' = '' @ ''x''"
    by (simp add: sample_step_def)
  have i: "safe_script (sample_host sample_identity) (''x'' @ '' = '' @ ''x'') L
             = identity_assignment ''x'' L" for L
    by (simp add: sample_host_def sample_identity_def)
  show ?thesis
    using identity_script_round_trip [where v = "VFloating 0x4000000000000000"
            and now = 1000 and later = 1001 and st = quiet_store and comm = "Some 0"
            and index = 0, OF m c t i]
          identity_script_round_trip [where v = "VInteger 5"
            and now = 1000 and later = 1001 and st = quiet_store and comm = "Some 0"
            and index = 0, OF m c t i]
          identity_script_round_trip [where v = "VText ''five''"
            and now = 1000 and later = 1001 and st = quiet_store and comm = "Some 0"
            and index = 0, OF m c t i]
    by simp
qed

section \<open>The sandbox (C9)\<close>

lemma open_safe_globals:
  "globals (open_safe_library_subset opn L) =
     (globals (open_libraries opn [lib_base, lib_math, lib_string, lib_table, lib_utf8] L))
       (''collectgarbage'' := LuaNil, ''debug'' := LuaNil, ''dofile'' := LuaNil,
        ''load'' := LuaNil, ''loadfile'' := LuaNil, ''print'' := LuaNil,
        ''require'' := LuaNil)"
  by (simp add: open_safe_library_subset_def Let_def)

lemma open_safe_libraries:
  "libraries (open_safe_library_subset opn L) = libraries L @ [lib_base, lib_math, lib_string, lib_table, lib_utf8]"
  by (simp add: open_safe_library_subset_def Let_def libraries_open_libraries)

lemma removed_globals_nil:
  "g \<in> set removed_globals \<Longrightarrow> globals (open_safe_library_subset opn L) g = LuaNil"
  by (auto simp add: open_safe_globals removed_globals_def)

lemma kept_globals:
  "g \<notin> set removed_globals \<Longrightarrow> globals (open_safe_library_subset opn L) g
     = globals (open_libraries opn [lib_base, lib_math, lib_string, lib_table, lib_utf8] L) g"
  by (simp add: open_safe_globals removed_globals_def)

lemma member_kept:
  "t \<notin> set removed_globals \<Longrightarrow>
   global_member (open_safe_library_subset opn L) t m
   = global_member (open_libraries opn [lib_base, lib_math, lib_string, lib_table, lib_utf8] L) t m"
  by (simp add: global_member_def kept_globals)

text \<open>
  C9: after the sandbox is built on a fresh VM, exactly the standard libraries base,
  math, string, table and utf8 are open; each of the seven globals
  \<open>collectgarbage\<close>, \<open>debug\<close>, \<open>dofile\<close>, \<open>load\<close>, \<open>loadfile\<close>, \<open>print\<close> and \<open>require\<close>
  is nil; and the members of the library tables are what the libraries bound, so
  that \<open>math.sqrt\<close>, \<open>string.upper\<close>, \<open>table.concat\<close> and \<open>utf8.len\<close>, callable
  after opening, remain callable.
\<close>

theorem sandbox_libraries_and_globals:
  "libraries (open_safe_library_subset opn new_state)
     = [lib_base, lib_math, lib_string, lib_table, lib_utf8]
   \<and> (\<forall>g \<in> set removed_globals. globals (open_safe_library_subset opn new_state) g = LuaNil)
   \<and> (\<forall>t m. t \<notin> set removed_globals \<longrightarrow>
        global_member (open_safe_library_subset opn new_state) t m
        = global_member
            (open_libraries opn [lib_base, lib_math, lib_string, lib_table, lib_utf8]
               new_state) t m)
   \<and> (\<forall>tm \<in> {(''math'', ''sqrt''), (''string'', ''upper''), (''table'', ''concat''),
               (''utf8'', ''len'')}.
        callable (global_member
            (open_libraries opn [lib_base, lib_math, lib_string, lib_table, lib_utf8]
               new_state) (fst tm) (snd tm))
        \<longrightarrow> callable (global_member (open_safe_library_subset opn new_state)
                        (fst tm) (snd tm)))"
proof -
  have l: "libraries (open_safe_library_subset opn new_state)
             = [lib_base, lib_math, lib_string, lib_table, lib_utf8]"
    by (simp add: open_safe_libraries new_state_def)
  have k: "''math'' \<notin> set removed_globals" "''string'' \<notin> set removed_globals"
    "''table'' \<notin> set removed_globals" "''utf8'' \<notin> set removed_globals"
    by (simp_all add: removed_globals_def)
  show ?thesis
    using l k by (simp add: removed_globals_nil member_kept)
qed

lemma sample_opened:
  "globals (open_libraries sample_luaopen
              [lib_base, lib_math, lib_string, lib_table, lib_utf8] new_state) ''print''
     = LuaFunction ''print''"
  "globals (open_libraries sample_luaopen
              [lib_base, lib_math, lib_string, lib_table, lib_utf8] new_state) ''pcall''
     = LuaFunction ''pcall''"
  "global_member (open_libraries sample_luaopen
              [lib_base, lib_math, lib_string, lib_table, lib_utf8] new_state)
     ''math'' ''sqrt'' = LuaFunction ''math.sqrt''"
  "global_member (open_libraries sample_luaopen
              [lib_base, lib_math, lib_string, lib_table, lib_utf8] new_state)
     ''string'' ''upper'' = LuaFunction ''string.upper''"
  "global_member (open_libraries sample_luaopen
              [lib_base, lib_math, lib_string, lib_table, lib_utf8] new_state)
     ''table'' ''concat'' = LuaFunction ''table.concat''"
  "global_member (open_libraries sample_luaopen
              [lib_base, lib_math, lib_string, lib_table, lib_utf8] new_state)
     ''utf8'' ''len'' = LuaFunction ''utf8.len''"
  by (simp_all add: global_member_def open_libraries_def open_library_def sample_luaopen_def
        new_state_def)

theorem sandbox_libraries_and_globals_witness:
  "callable (globals (open_libraries sample_luaopen
               [lib_base, lib_math, lib_string, lib_table, lib_utf8] new_state) ''print'')
   \<and> globals (open_safe_library_subset sample_luaopen new_state) ''print'' = LuaNil
   \<and> globals (open_safe_library_subset sample_luaopen new_state) ''require'' = LuaNil
   \<and> callable (globals (open_safe_library_subset sample_luaopen new_state) ''pcall'')
   \<and> callable (global_member (open_safe_library_subset sample_luaopen new_state)
                 ''math'' ''sqrt'')
   \<and> callable (global_member (open_safe_library_subset sample_luaopen new_state)
                 ''string'' ''upper'')
   \<and> callable (global_member (open_safe_library_subset sample_luaopen new_state)
                 ''table'' ''concat'')
   \<and> callable (global_member (open_safe_library_subset sample_luaopen new_state)
                 ''utf8'' ''len'')
   \<and> libraries (open_safe_library_subset sample_luaopen new_state)
       = [lib_base, lib_math, lib_string, lib_table, lib_utf8]"
proof -
  have q: "callable (globals (open_safe_library_subset sample_luaopen new_state) ''pcall'')"
    by (simp add: kept_globals removed_globals_def sample_opened callable_def)
  show ?thesis
    using sandbox_libraries_and_globals [of sample_luaopen] q
    by (simp add: removed_globals_def sample_opened callable_def)
qed

section \<open>A null channel (C10)\<close>





end
